theory Spec2Isabelle
  imports Complex_Main "HOL-Library.Word"
begin

section \<open>Values, exceptions and records\<close>

text \<open>
  Responses, event payloads and token claims are JavaScript object literals in the
  source; they are modelled as JSON values, an object being the list of its fields in
  the order they are written.
\<close>

datatype json =
    JNull
  | JBool bool
  | JNum int
  | JFloat real
  | JDate nat
  | JStr string
  | JArr "json list"
  | JObj "(string \<times> json) list"

text \<open>The names of all fields of a value, at any depth.\<close>

fun json_keys :: "json \<Rightarrow> string list" where
  "json_keys (JArr vs) = concat (map json_keys vs)"
| "json_keys (JObj kvs) = concat (map (\<lambda>kv. fst kv # json_keys (snd kv)) kvs)"
| "json_keys _ = []"

text \<open>Property access \<open>obj.key\<close>: the field of an object, if it has one of that name.\<close>

fun json_get :: "string \<Rightarrow> json \<Rightarrow> json option" where
  "json_get k (JObj kvs) = map_of kvs k"
| "json_get k _ = None"

text \<open>
  The exceptions of \<open>@nestjs/common\<close> the services throw, each with its message, the
  \<open>TypeError\<close> of a property read on \<open>null\<close>, the known request errors of the database
  client (with their code), and a fault of an external collaborator (the number is the
  position of the failed call).
\<close>

datatype exn =
    NotFoundException string
  | BadRequestException string
  | UnauthorizedException string
  | InternalServerErrorException string
  | TypeError string
  | PrismaClientKnownRequestError string
  | ExternalFault nat

text \<open>
  The \<open>User\<close> and \<open>Farm\<close> models of the database schema. \<open>verified\<close>, \<open>token\<close> and
  \<open>resetToken\<close> are nullable. The relation fields (\<open>farms\<close>, \<open>farmer\<close>, \<open>tasks\<close>) are
  not stored on the record: a farm belongs to the user its \<open>farmerId\<close> names.

  The columns \<open>created_at\<close> and \<open>updated_at\<close> are nullable dates (a date is its time in
  milliseconds) that the database client writes. Those of a farm are part of the record
  the farm operations return. Those of a user are never read, and no record of a user is
  returned without a \<open>select\<close> that leaves them out; they are not modelled.
\<close>

record user =
  user_id :: string
  email :: string
  firstname :: string
  lastname :: string
  username :: string
  passwordhash :: string
  verified :: "bool option"
  token :: "string option"
  resetToken :: "string option"

record Location =
  longitude :: string
  latitude :: string

record SoilInfo =
  soilpH :: real
  soilType :: string

record farm =
  farm_id :: string
  farmerId :: string
  name :: string
  location :: Location
  farm_size :: int
  size_unit :: string
  status :: string
  soil :: SoilInfo
  created_at :: "nat option"
  updated_at :: "nat option"

text \<open>The request bodies, with the fields the services read.\<close>

record CreateUserDto =
  reg_email :: string
  reg_username :: string
  reg_firstname :: string
  reg_lastname :: string
  reg_password :: string

record LoginDto =
  login_email :: string
  login_password :: string

record ForgotPasswordDto =
  forgot_email :: string

record ResetPasswordDto =
  reset_email :: string
  reset_newPassword :: string

record CreateFarmDto =
  cf_name :: string
  cf_location :: Location
  cf_size :: int
  cf_size_unit :: string
  cf_status :: string
  cf_soilInfo :: SoilInfo

text \<open>
  In \<open>UpdateFarmDto\<close> the fields \<open>location\<close> and \<open>soil\<close> are optional; a field that is
  \<open>undefined\<close> in the data of an update is left as it is by the database client.
\<close>

record UpdateFarmDto =
  uf_name :: string
  uf_location :: "Location option"
  uf_size :: int
  uf_size_unit :: string
  uf_status :: string
  uf_soil :: "SoilInfo option"

definition null_or :: "('a \<Rightarrow> json) \<Rightarrow> 'a option \<Rightarrow> json" where
  "null_or f v = (case v of None \<Rightarrow> JNull | Some x \<Rightarrow> f x)"

definition user_json :: "user \<Rightarrow> (string \<times> json) list" where
  "user_json u =
     [(''id'', JStr (user_id u)),
      (''email'', JStr (email u)),
      (''firstname'', JStr (firstname u)),
      (''lastname'', JStr (lastname u)),
      (''username'', JStr (username u)),
      (''passwordhash'', JStr (passwordhash u)),
      (''verified'', null_or JBool (verified u)),
      (''token'', null_or JStr (token u)),
      (''resetToken'', null_or JStr (resetToken u))]"

text \<open>The \<open>select\<close> option of a query: only the named fields of the record are returned.\<close>

definition select :: "string list \<Rightarrow> (string \<times> json) list \<Rightarrow> json" where
  "select names obj = JObj (filter (\<lambda>kv. fst kv \<in> set names) obj)"

definition farm_json :: "farm \<Rightarrow> json" where
  "farm_json f =
     JObj [(''id'', JStr (farm_id f)),
           (''farmerId'', JStr (farmerId f)),
           (''name'', JStr (name f)),
           (''location'', JObj [(''longitude'', JStr (longitude (location f))),
                                (''latitude'', JStr (latitude (location f)))]),
           (''size'', JNum (farm_size f)),
           (''size_unit'', JStr (size_unit f)),
           (''status'', JStr (status f)),
           (''soil'', JObj [(''soilpH'', JFloat (soilpH (soil f))),
                            (''soilType'', JStr (soilType (soil f)))]),
           (''created_at'', null_or JDate (created_at f)),
           (''updated_at'', null_or JDate (updated_at f))]"

section \<open>The world outside the services\<close>

text \<open>
  The injected collaborators. What they compute is a parameter: the hash function and
  its verifier, the token signer, the configuration, the bytes the random generator
  will deliver, the identifiers the database will allocate, the time at each call
  (\<open>clock d n\<close>: the time when call number \<open>n\<close> has been made), and which of the calls
  to a collaborator fail (\<open>faults d n\<close>: the call number \<open>n\<close> throws).
\<close>

record deps =
  argon_hash :: "string \<Rightarrow> string"
  argon_verify :: "string \<Rightarrow> string \<Rightarrow> bool"
  jwt_sign :: "json \<Rightarrow> string option \<Rightarrow> string option \<Rightarrow> string"
  config_get :: "string \<Rightarrow> string option"
  entropy :: "nat \<Rightarrow> 8 word"
  objectId :: "nat \<Rightarrow> string"
  clock :: "nat \<Rightarrow> nat"
  faults :: "nat \<Rightarrow> bool"

text \<open>
  The state the services change: the two collections of the database, the events
  published on the emitter, the errors written by \<open>console.error\<close>, the payloads handed
  to the token signer, and how many random bytes, identifiers and collaborator calls
  have been used so far.
\<close>

record world =
  users :: "user list"
  farms :: "farm list"
  emitted :: "(string \<times> json) list"
  console :: "exn list"
  signings :: "json list"
  drawn :: nat
  allocated :: nat
  tick :: nat

text \<open>
  An \<open>async\<close> function: from a world to a result (\<open>Inl\<close> the exception thrown) and the
  world it leaves. Changes made before a throw stay: there is no transaction.
\<close>

type_synonym 'a io = "world \<Rightarrow> (exn + 'a) \<times> world"

definition resolve :: "'a \<Rightarrow> 'a io" where
  "resolve x w = (Inr x, w)"

definition throw :: "exn \<Rightarrow> 'a io" where
  "throw e w = (Inl e, w)"

text \<open>\<open>const x = await m; k x\<close>\<close>

definition await :: "'a io \<Rightarrow> ('a \<Rightarrow> 'b io) \<Rightarrow> 'b io" where
  "await m k w = (case m w of (Inl e, w') \<Rightarrow> (Inl e, w') | (Inr x, w') \<Rightarrow> k x w')"

text \<open>\<open>try { m } catch (error) { h error }\<close>\<close>

definition try_catch :: "'a io \<Rightarrow> (exn \<Rightarrow> 'a io) \<Rightarrow> 'a io" where
  "try_catch m h w = (case m w of (Inl e, w') \<Rightarrow> h e w' | (Inr x, w') \<Rightarrow> (Inr x, w'))"

definition console_error :: "exn \<Rightarrow> unit io" where
  "console_error e w = (Inr (), w\<lparr>console := console w @ [e]\<rparr>)"

text \<open>Every call to a collaborator is counted, and throws when the schedule says so.\<close>

definition ext_call :: "deps \<Rightarrow> unit io" where
  "ext_call d w =
     (if faults d (tick w) then Inl (ExternalFault (tick w)) else Inr (),
      w\<lparr>tick := Suc (tick w)\<rparr>)"

text \<open>In JavaScript every object and every array, the empty one too, is truthy.\<close>

definition truthy_object :: "'a \<Rightarrow> bool" where
  "truthy_object x = True"

fun update_first :: "('a \<Rightarrow> bool) \<Rightarrow> ('a \<Rightarrow> 'a) \<Rightarrow> 'a list \<Rightarrow> 'a list" where
  "update_first P f [] = []"
| "update_first P f (x # xs) = (if P x then f x # xs else x # update_first P f xs)"

fun remove_first :: "('a \<Rightarrow> bool) \<Rightarrow> 'a list \<Rightarrow> 'a list" where
  "remove_first P [] = []"
| "remove_first P (x # xs) = (if P x then xs else x # remove_first P xs)"

section \<open>The collaborators\<close>

subsection \<open>The database client\<close>

text \<open>
  \<open>prisma.user.findUnique({where: {email}})\<close>: the record with that email, or \<open>null\<close>.
  The services read only selected fields of the record they get back.
\<close>

definition user_findUnique :: "deps \<Rightarrow> string \<Rightarrow> user option io" where
  "user_findUnique d e =
     await (ext_call d) (\<lambda>_ w. (Inr (find (\<lambda>u. email u = e) (users w)), w))"

text \<open>
  \<open>prisma.user.create\<close>: \<open>email\<close> and \<open>username\<close> are unique, and a record that repeats
  one is refused with the error P2002. The new record gets a new identifier and no token.
\<close>

definition user_create :: "deps \<Rightarrow> CreateUserDto \<Rightarrow> string \<Rightarrow> user io" where
  "user_create d dto hash =
     await (ext_call d) (\<lambda>_ w.
       if \<exists>u \<in> set (users w). email u = reg_email dto \<or> username u = reg_username dto
       then (Inl (PrismaClientKnownRequestError ''P2002''), w)
       else
         let newUser = \<lparr>user_id = objectId d (allocated w),
                        email = reg_email dto,
                        firstname = reg_firstname dto,
                        lastname = reg_lastname dto,
                        username = reg_username dto,
                        passwordhash = hash,
                        verified = Some False,
                        token = None,
                        resetToken = None\<rparr>
         in (Inr newUser, w\<lparr>users := users w @ [newUser], allocated := Suc (allocated w)\<rparr>))"

text \<open>
  \<open>prisma.user.update({where: {email}, data})\<close>: the record with that email is changed
  and returned; when there is none the client throws the error P2025.
\<close>

definition user_update :: "deps \<Rightarrow> string \<Rightarrow> (user \<Rightarrow> user) \<Rightarrow> user io" where
  "user_update d e f =
     await (ext_call d) (\<lambda>_ w.
       case find (\<lambda>u. email u = e) (users w) of
         None \<Rightarrow> (Inl (PrismaClientKnownRequestError ''P2025''), w)
       | Some u \<Rightarrow> (Inr (f u), w\<lparr>users := update_first (\<lambda>u. email u = e) f (users w)\<rparr>))"

text \<open>
  \<open>prisma.user.update({where: {id}, data: {farms: {connect: {id: farmId}}}})\<close>: the
  farm is made to name the user as its farmer; the user and the farm must both exist.
  The model changes the \<open>farmerId\<close> of the farm and nothing else.
\<close>

definition user_connect_farm :: "deps \<Rightarrow> string \<Rightarrow> string \<Rightarrow> user io" where
  "user_connect_farm d uid fid =
     await (ext_call d) (\<lambda>_ w.
       case find (\<lambda>u. user_id u = uid) (users w) of
         None \<Rightarrow> (Inl (PrismaClientKnownRequestError ''P2025''), w)
       | Some u \<Rightarrow>
           (case find (\<lambda>f. farm_id f = fid) (farms w) of
              None \<Rightarrow> (Inl (PrismaClientKnownRequestError ''P2025''), w)
            | Some _ \<Rightarrow>
                (Inr u, w\<lparr>farms := update_first (\<lambda>f. farm_id f = fid)
                                      (\<lambda>f. f\<lparr>farmerId := uid\<rparr>) (farms w)\<rparr>)))"

text \<open>
  \<open>prisma.farm.create\<close>: the new record gets a new identifier, and \<open>created_at\<close>
  (default \<open>now()\<close>) and \<open>updated_at\<close> are the time of the call.
\<close>

definition farm_create :: "deps \<Rightarrow> string \<Rightarrow> CreateFarmDto \<Rightarrow> farm io" where
  "farm_create d userid dto =
     await (ext_call d) (\<lambda>_ w.
       let newFarm = \<lparr>farm_id = objectId d (allocated w),
                      farmerId = userid,
                      name = cf_name dto,
                      location = cf_location dto,
                      farm_size = cf_size dto,
                      size_unit = cf_size_unit dto,
                      status = cf_status dto,
                      soil = cf_soilInfo dto,
                      created_at = Some (clock d (tick w)),
                      updated_at = Some (clock d (tick w))\<rparr>
       in (Inr newFarm, w\<lparr>farms := farms w @ [newFarm], allocated := Suc (allocated w)\<rparr>))"

text \<open>\<open>prisma.farm.findMany({where: {farmerId}})\<close>: always an array.\<close>

definition farm_findMany :: "deps \<Rightarrow> string \<Rightarrow> farm list io" where
  "farm_findMany d userid =
     await (ext_call d) (\<lambda>_ w. (Inr (filter (\<lambda>f. farmerId f = userid) (farms w)), w))"

text \<open>The filter \<open>{farmerId: userid, id: farmid}\<close> of the three operations on one farm.\<close>

definition owned :: "string \<Rightarrow> string \<Rightarrow> farm \<Rightarrow> bool" where
  "owned userid farmid f \<longleftrightarrow> farmerId f = userid \<and> farm_id f = farmid"

definition farm_findUnique :: "deps \<Rightarrow> string \<Rightarrow> string \<Rightarrow> farm option io" where
  "farm_findUnique d userid farmid =
     await (ext_call d) (\<lambda>_ w. (Inr (find (owned userid farmid) (farms w)), w))"

text \<open>
  \<open>prisma.farm.update({where, data})\<close>: the data are written to the record the filter
  finds and \<open>updated_at\<close> becomes the time of the call; the new record is returned. When
  the filter finds none the client throws the error P2025.
\<close>

definition farm_update :: "deps \<Rightarrow> string \<Rightarrow> string \<Rightarrow> (farm \<Rightarrow> farm) \<Rightarrow> farm io" where
  "farm_update d userid farmid g =
     await (ext_call d) (\<lambda>_ w.
       let write = (\<lambda>f. (g f)\<lparr>updated_at := Some (clock d (tick w))\<rparr>) in
       case find (owned userid farmid) (farms w) of
         None \<Rightarrow> (Inl (PrismaClientKnownRequestError ''P2025''), w)
       | Some f \<Rightarrow>
           (Inr (write f), w\<lparr>farms := update_first (owned userid farmid) write (farms w)\<rparr>))"

definition farm_delete :: "deps \<Rightarrow> string \<Rightarrow> string \<Rightarrow> farm io" where
  "farm_delete d userid farmid =
     await (ext_call d) (\<lambda>_ w.
       case find (owned userid farmid) (farms w) of
         None \<Rightarrow> (Inl (PrismaClientKnownRequestError ''P2025''), w)
       | Some f \<Rightarrow> (Inr f, w\<lparr>farms := remove_first (owned userid farmid) (farms w)\<rparr>))"

subsection \<open>Hashing, signing, events and random bytes\<close>

definition argon_hash_call :: "deps \<Rightarrow> string \<Rightarrow> string io" where
  "argon_hash_call d password = await (ext_call d) (\<lambda>_. resolve (argon_hash d password))"

definition argon_verify_call :: "deps \<Rightarrow> string \<Rightarrow> string \<Rightarrow> bool io" where
  "argon_verify_call d hash password =
     await (ext_call d) (\<lambda>_. resolve (argon_verify d hash password))"

definition jwt_signAsync :: "deps \<Rightarrow> json \<Rightarrow> string option \<Rightarrow> string option \<Rightarrow> string io" where
  "jwt_signAsync d payload secret expiresIn =
     await (ext_call d) (\<lambda>_ w.
       (Inr (jwt_sign d payload secret expiresIn), w\<lparr>signings := signings w @ [payload]\<rparr>))"

definition emitter_emit :: "deps \<Rightarrow> string \<Rightarrow> json \<Rightarrow> unit io" where
  "emitter_emit d event payload =
     await (ext_call d) (\<lambda>_ w. (Inr (), w\<lparr>emitted := emitted w @ [(event, payload)]\<rparr>))"

text \<open>\<open>randomBytes(n)\<close>: the next \<open>n\<close> bytes of the generator.\<close>

definition randomBytes :: "deps \<Rightarrow> nat \<Rightarrow> 8 word list io" where
  "randomBytes d n w = (Inr (map (entropy d) [drawn w ..< drawn w + n]), w\<lparr>drawn := drawn w + n\<rparr>)"

text \<open>\<open>buffer.toString('hex')\<close>: two lowercase digits for each byte, the high one first.\<close>

definition hexDigit :: "nat \<Rightarrow> char" where
  "hexDigit n = ''0123456789abcdef'' ! (n mod 16)"

definition toHex :: "8 word list \<Rightarrow> string" where
  "toHex bytes = concat (map (\<lambda>b. [hexDigit (unat b div 16), hexDigit (unat b mod 16)]) bytes)"

section \<open>AuthService\<close>

definition getUserByEmail :: "deps \<Rightarrow> string \<Rightarrow> user io" where
  "getUserByEmail d user_email =
     try_catch
       (await (user_findUnique d user_email) (\<lambda>user.
          case user of
            None \<Rightarrow> throw (NotFoundException ''User could not be found.'')
          | Some u \<Rightarrow> resolve u))
       (\<lambda>error. throw (InternalServerErrorException ''Please try again.''))"

definition randomDigits :: "deps \<Rightarrow> string io" where
  "randomDigits d = await (randomBytes d 3) (\<lambda>bytes. resolve (toHex bytes))"

definition register :: "deps \<Rightarrow> CreateUserDto \<Rightarrow> json io" where
  "register d dto =
     try_catch
       (await (argon_hash_call d (reg_password dto)) (\<lambda>hash.
        await (user_create d dto hash) (\<lambda>created.
          let newUser = select [''email'', ''username''] (user_json created) in
          if \<not> truthy_object newUser
          then throw (InternalServerErrorException ''User could not registered.'')
          else
            let email_data = JObj [(''to'', JStr (reg_email dto)),
                                   (''data'', JObj [(''name'', JStr (reg_username dto))])] in
            await (emitter_emit d ''welcome-email'' email_data) (\<lambda>_.
            resolve (JObj [(''message'', JStr ''User registered.''),
                           (''status'', JStr ''Success''),
                           (''statusCode'', JNum 201),
                           (''data'', newUser)])))))
       (\<lambda>error.
          await (console_error error) (\<lambda>_.
          throw (InternalServerErrorException ''Registration failed.'')))"

text \<open>
  In \<open>login\<close> the record is not tested before \<open>user.passwordhash\<close> is read: for an
  unknown email the read of a property of \<open>null\<close> throws a \<open>TypeError\<close>. \<open>!user.verified\<close>
  holds for \<open>false\<close> and for \<open>null\<close>.
\<close>

definition login :: "deps \<Rightarrow> LoginDto \<Rightarrow> json io" where
  "login d dto =
     try_catch
       (await (user_findUnique d (login_email dto)) (\<lambda>found.
          case found of
            None \<Rightarrow> throw (TypeError ''Cannot read properties of null'')
          | Some user \<Rightarrow>
              await (argon_verify_call d (passwordhash user) (login_password dto)) (\<lambda>match.
                if \<not> match then throw (UnauthorizedException ''Invalid password'')
                else if verified user \<noteq> Some True then
                  await (randomDigits d) (\<lambda>verificationToken.
                  await (user_update d (email user) (\<lambda>u. u\<lparr>token := Some verificationToken\<rparr>)) (\<lambda>_.
                    let email_data =
                          JObj [(''to'', JStr (email user)),
                                (''data'', JObj [(''name'', JStr (username user)),
                                                 (''token'', JStr verificationToken)])] in
                    await (emitter_emit d ''send-verification'' email_data) (\<lambda>_.
                    resolve (JObj [(''message'', JStr ''Please verify your account''),
                                   (''status'', JStr ''success''),
                                   (''statusCode'', JNum 200),
                                   (''data'', JNull)]))))
                else
                  let payload = JObj [(''sub'', JStr (user_id user)),
                                      (''email'', JStr (email user))] in
                  await (jwt_signAsync d payload (config_get d ''JWT_SECRET'')
                           (config_get d ''JWT_EXPIRE'')) (\<lambda>tok.
                  resolve (JObj [(''access_token'', JStr tok)])))))
       (\<lambda>error. throw (UnauthorizedException ''Login failed, try again.''))"

definition forgotPassword :: "deps \<Rightarrow> ForgotPasswordDto \<Rightarrow> json io" where
  "forgotPassword d dto =
     try_catch
       (await (getUserByEmail d (forgot_email dto)) (\<lambda>user.
        await (randomDigits d) (\<lambda>resetToken'.
        await (user_update d (email user) (\<lambda>u. u\<lparr>resetToken := Some resetToken'\<rparr>)) (\<lambda>_.
          let data = JObj [(''resetToken'', JStr resetToken')] in
          await (emitter_emit d ''send-reset-token'' data) (\<lambda>_.
          resolve (JObj [(''message'', JStr ''Reset token has been sent to your email''),
                         (''status'', JStr ''success''),
                         (''statusCode'', JNum 200),
                         (''data'', JNull)]))))))
       (\<lambda>error.
          await (console_error error) (\<lambda>_.
          throw (InternalServerErrorException ''Retrieving password failed.'')))"

text \<open>
  \<open>token === user.token\<close> compares the submitted string with the stored value, which
  is a string or \<open>null\<close>; \<open>null\<close> is equal to no string.
\<close>

definition verifyToken :: "deps \<Rightarrow> string \<Rightarrow> string \<Rightarrow> json io" where
  "verifyToken d email' token' =
     try_catch
       (await (user_findUnique d email') (\<lambda>found.
          case found of
            None \<Rightarrow> throw (NotFoundException ''User could not be found.'')
          | Some user \<Rightarrow>
              let match = (Some token' = token user) in
              if \<not> match then throw (BadRequestException ''Invalid OTP'')
              else
                await (user_update d email' (\<lambda>u. u\<lparr>verified := Some True\<rparr>)) (\<lambda>_.
                resolve (JObj [(''message'', JStr ''Valid Token''),
                               (''status'', JStr ''success''),
                               (''statusCode'', JNum 200),
                               (''data'', JNull)]))))
       (\<lambda>error.
          await (console_error error) (\<lambda>_.
          throw (InternalServerErrorException ''Token could not be verified.'')))"

definition resetPassword :: "deps \<Rightarrow> ResetPasswordDto \<Rightarrow> json io" where
  "resetPassword d dto =
     try_catch
       (await (argon_hash_call d (reset_newPassword dto)) (\<lambda>hash.
        await (user_update d (reset_email dto) (\<lambda>u. u\<lparr>passwordhash := hash\<rparr>)) (\<lambda>updatedUser.
          if \<not> truthy_object updatedUser
          then throw (InternalServerErrorException ''Password could not be reset'')
          else resolve (JObj [(''message'', JStr ''Password Reset successfully.''),
                              (''status'', JStr ''success''),
                              (''statusCode'', JNum 200),
                              (''data'', JNull)]))))
       (\<lambda>error.
          await (console_error error) (\<lambda>_.
          throw (InternalServerErrorException ''Password could not be reset.'')))"

section \<open>FarmService\<close>

definition createFarm :: "deps \<Rightarrow> string \<Rightarrow> CreateFarmDto \<Rightarrow> json io" where
  "createFarm d userid dto =
     try_catch
       (await (farm_create d userid dto) (\<lambda>newFarm.
          if \<not> truthy_object newFarm
          then throw (InternalServerErrorException ''Farm could not be added.'')
          else
            await (user_connect_farm d userid (farm_id newFarm)) (\<lambda>_.
            resolve (JObj [(''message'', JStr ''Farm created''),
                           (''status'', JStr ''success''),
                           (''statusCode'', JNum 201),
                           (''data'', farm_json newFarm)]))))
       (\<lambda>error.
          await (console_error error) (\<lambda>_.
          throw (InternalServerErrorException ''Farm could not be added.'')))"

definition getFarms :: "deps \<Rightarrow> string \<Rightarrow> json io" where
  "getFarms d userid =
     try_catch
       (await (farm_findMany d userid) (\<lambda>farms'.
          if \<not> truthy_object farms'
          then throw (NotFoundException ''No farms found.'')
          else resolve (JObj [(''message'', JStr ''Farms retrieved.''),
                              (''status'', JStr ''success''),
                              (''statusCode'', JNum 200),
                              (''data'', JArr (map farm_json farms'))])))
       (\<lambda>error.
          await (console_error error) (\<lambda>_.
          throw (InternalServerErrorException ''Farms could not be retrieved.'')))"

definition getById :: "deps \<Rightarrow> string \<Rightarrow> string \<Rightarrow> json io" where
  "getById d userid farmid =
     try_catch
       (await (farm_findUnique d userid farmid) (\<lambda>found.
          case found of
            None \<Rightarrow> throw (NotFoundException ''Farm not found.'')
          | Some f \<Rightarrow>
              resolve (JObj [(''message'', JStr ''Farm retrieved successfully''),
                             (''status'', JStr ''success''),
                             (''statusCode'', JNum 200),
                             (''data'', farm_json f)])))
       (\<lambda>error.
          await (console_error error) (\<lambda>_.
          throw (InternalServerErrorException ''Farm could not be retrieved'')))"

definition updateFarm :: "deps \<Rightarrow> string \<Rightarrow> string \<Rightarrow> UpdateFarmDto \<Rightarrow> json io" where
  "updateFarm d userid farmid dto =
     try_catch
       (await (farm_update d userid farmid
                 (\<lambda>f. f\<lparr>name := uf_name dto,
                         location := (case uf_location dto of None \<Rightarrow> location f | Some l \<Rightarrow> l),
                         farm_size := uf_size dto,
                         size_unit := uf_size_unit dto,
                         status := uf_status dto,
                         soil := (case uf_soil dto of None \<Rightarrow> soil f | Some s \<Rightarrow> s)\<rparr>))
          (\<lambda>f.
            if \<not> truthy_object f
            then throw (InternalServerErrorException ''Farm could not be updated.'')
            else resolve (JObj [(''message'', JStr ''Farm updated successfully''),
                                (''status'', JStr ''success''),
                                (''statusCode'', JNum 200),
                                (''data'', farm_json f)])))
       (\<lambda>error.
          await (console_error error) (\<lambda>_.
          throw (InternalServerErrorException ''Farm could not be updated.'')))"

definition deleteFarm :: "deps \<Rightarrow> string \<Rightarrow> string \<Rightarrow> json io" where
  "deleteFarm d userid farmid =
     try_catch
       (await (farm_delete d userid farmid) (\<lambda>_.
          resolve (JObj [(''message'', JStr ''Farm deleted successfully''),
                         (''status'', JStr ''success''),
                         (''statusCode'', JNum 200),
                         (''data'', JNull)])))
       (\<lambda>error.
          await (console_error error) (\<lambda>_.
          throw (InternalServerErrorException ''Farm could not be deleted.'')))"

text \<open>The code \<open>randomDigits\<close> makes of the three bytes the generator holds at position \<open>i\<close>.\<close>

definition token_from :: "deps \<Rightarrow> nat \<Rightarrow> string" where
  "token_from d i = toHex [entropy d i, entropy d (i + 1), entropy d (i + 2)]"

section \<open>The operations as one interface\<close>

text \<open>The requests the two services answer, and the method each one calls.\<close>

datatype request =
    Register CreateUserDto
  | Login LoginDto
  | ForgotPassword ForgotPasswordDto
  | VerifyToken string string
  | ResetPassword ResetPasswordDto
  | CreateFarm string CreateFarmDto
  | GetFarms string
  | GetById string string
  | UpdateFarm string string UpdateFarmDto
  | DeleteFarm string string

fun perform :: "deps \<Rightarrow> request \<Rightarrow> json io" where
  "perform d (Register dto) = register d dto"
| "perform d (Login dto) = login d dto"
| "perform d (ForgotPassword dto) = forgotPassword d dto"
| "perform d (VerifyToken e t) = verifyToken d e t"
| "perform d (ResetPassword dto) = resetPassword d dto"
| "perform d (CreateFarm userid dto) = createFarm d userid dto"
| "perform d (GetFarms userid) = getFarms d userid"
| "perform d (GetById userid farmid) = getById d userid farmid"
| "perform d (UpdateFarm userid farmid dto) = updateFarm d userid farmid dto"
| "perform d (DeleteFarm userid farmid) = deleteFarm d userid farmid"

text \<open>No call to a collaborator fails.\<close>

definition reliable :: "deps \<Rightarrow> bool" where
  "reliable d \<longleftrightarrow> (\<forall>n. \<not> faults d n)"

text \<open>The envelope every operation but a completed login answers with.\<close>

definition envelope :: "string \<Rightarrow> string \<Rightarrow> int \<Rightarrow> json \<Rightarrow> json" where
  "envelope m s c v =
     JObj [(''message'', JStr m), (''status'', JStr s), (''statusCode'', JNum c), (''data'', v)]"

section \<open>A sample world\<close>

text \<open>
  Two registered users, \<open>alice\<close> (not verified, with a pending token) and \<open>bob\<close>
  (verified), one farm of each, and collaborators that never fail.
\<close>

definition alice :: user where
  "alice = \<lparr>user_id = ''u1'', email = ''a@x.com'', firstname = ''Alice'', lastname = ''A'',
            username = ''alice'', passwordhash = ''#pw-a'', verified = Some False,
            token = Some ''0a1b2c'', resetToken = None\<rparr>"

definition bob :: user where
  "bob = \<lparr>user_id = ''u2'', email = ''b@x.com'', firstname = ''Bob'', lastname = ''B'',
          username = ''bob'', passwordhash = ''#pw-b'', verified = Some True,
          token = Some ''ffeedd'', resetToken = Some ''123abc''\<rparr>"

definition north_field :: farm where
  "north_field = \<lparr>farm_id = ''f1'', farmerId = ''u1'', name = ''North Field'',
                  location = \<lparr>longitude = ''3.4'', latitude = ''6.5''\<rparr>,
                  farm_size = 10, size_unit = ''Acres'', status = ''Planting'',
                  soil = \<lparr>soilpH = 7, soilType = ''loam''\<rparr>,
                  created_at = Some 100, updated_at = Some 250\<rparr>"

definition south_field :: farm where
  "south_field = \<lparr>farm_id = ''f2'', farmerId = ''u2'', name = ''South Field'',
                  location = \<lparr>longitude = ''3.5'', latitude = ''6.4''\<rparr>,
                  farm_size = 2, size_unit = ''Hectares'', status = ''Harvesting'',
                  soil = \<lparr>soilpH = 6, soilType = ''clay''\<rparr>,
                  created_at = Some 300, updated_at = None\<rparr>"

definition deps0 :: deps where
  "deps0 = \<lparr>argon_hash = (\<lambda>p. CHR ''#'' # p),
            argon_verify = (\<lambda>h p. h = CHR ''#'' # p),
            jwt_sign = (\<lambda>payload secret expiresIn.
                          case json_get ''sub'' payload of Some (JStr s) \<Rightarrow> ''jwt-'' @ s | _ \<Rightarrow> ''jwt''),
            config_get = map_of [(''JWT_SECRET'', ''s3cret''), (''JWT_EXPIRE'', ''1h'')],
            entropy = (\<lambda>n. of_nat (171 + 52 * n)),
            objectId = (\<lambda>n. replicate (Suc n) CHR ''n''),
            clock = (\<lambda>n. 1000 + n),
            faults = (\<lambda>n. False)\<rparr>"

definition world0 :: world where
  "world0 = \<lparr>users = [alice, bob], farms = [north_field, south_field], emitted = [],
             console = [], signings = [], drawn = 0, allocated = 0, tick = 0\<rparr>"

section \<open>Facts about the collaborators\<close>

lemmas io_defs =
  resolve_def throw_def await_def try_catch_def console_error_def ext_call_def truthy_object_def

lemmas lib_defs =
  argon_hash_call_def argon_verify_call_def jwt_signAsync_def emitter_emit_def randomBytes_def

lemmas sample_defs =
  alice_def bob_def north_field_def south_field_def deps0_def world0_def

lemma find_Some_holds: "find P xs = Some x \<Longrightarrow> P x"
  by (induction xs) (auto split: if_splits)

lemma find_Some_member: "find P xs = Some x \<Longrightarrow> x \<in> set xs"
  by (induction xs) (auto split: if_splits)

lemma find_None_none: "find P xs = None \<longleftrightarrow> (\<forall>x \<in> set xs. \<not> P x)"
  by (induction xs) auto

lemma find_update_first:
  "find P xs = Some x \<Longrightarrow> P (f x) \<Longrightarrow> find P (update_first P f xs) = Some (f x)"
  by (induction xs) (auto split: if_splits)

lemma hexDigit_in: "hexDigit n \<in> set ''0123456789abcdef''"
proof -
  have "n mod 16 < length ''0123456789abcdef''" by simp
  then show ?thesis unfolding hexDigit_def by (rule nth_mem)
qed

lemma toHex_length: "length (toHex bs) = 2 * length bs"
  by (induction bs) (simp_all add: toHex_def)

lemma toHex_chars: "set (toHex bs) \<subseteq> set ''0123456789abcdef''"
proof
  fix c
  assume "c \<in> set (toHex bs)"
  then obtain n where "c = hexDigit n"
    by (auto simp: toHex_def)
  then show "c \<in> set ''0123456789abcdef''"
    using hexDigit_in by metis
qed

lemma three_from: "[i ..< i + 3] = [i, i + 1, i + 2]"
  by (simp add: upt_rec)

lemma randomDigits_draws:
  "randomDigits d w = (Inr (token_from d (drawn w)), w\<lparr>drawn := drawn w + 3\<rparr>)"
  by (simp add: randomDigits_def randomBytes_def token_from_def three_from io_defs)

section \<open>verifyToken\<close>

text \<open>
  What \<open>verifyToken\<close> does when the lookup itself does not fail. Both exceptions thrown
  inside the \<open>try\<close> block are caught by its own \<open>catch\<close>, written to the console and
  replaced: the caller sees an internal server error in both cases.
\<close>

lemma verifyToken_absent:
  assumes "\<not> faults d (tick w)" and "find (\<lambda>u. email u = e) (users w) = None"
  shows "verifyToken d e t w =
           (Inl (InternalServerErrorException ''Token could not be verified.''),
            w\<lparr>tick := Suc (tick w),
              console := console w @ [NotFoundException ''User could not be found.'']\<rparr>)"
  using assms by (simp add: verifyToken_def user_findUnique_def io_defs)

lemma verifyToken_mismatch:
  assumes "\<not> faults d (tick w)" and "find (\<lambda>u. email u = e) (users w) = Some u"
    and "token u \<noteq> Some t"
  shows "verifyToken d e t w =
           (Inl (InternalServerErrorException ''Token could not be verified.''),
            w\<lparr>tick := Suc (tick w), console := console w @ [BadRequestException ''Invalid OTP'']\<rparr>)"
  using assms by (auto simp add: verifyToken_def user_findUnique_def io_defs)

lemma verifyToken_match:
  assumes "reliable d" and "find (\<lambda>u. email u = e) (users w) = Some u"
    and "token u = Some t"
  shows "verifyToken d e t w =
           (Inr (envelope ''Valid Token'' ''success'' 200 JNull),
            w\<lparr>tick := tick w + 2,
              users := update_first (\<lambda>u. email u = e) (\<lambda>u. u\<lparr>verified := Some True\<rparr>) (users w)\<rparr>)"
  using assms
  by (simp add: verifyToken_def user_findUnique_def user_update_def io_defs reliable_def
      envelope_def)

text \<open>
  Claim C1: \<open>verifyToken\<close> fails with \<open>NotFound\<close> when no user has the email, fails with
  \<open>BadRequest\<close> when the submitted token is not the stored one, and on a match sets
  \<open>verified\<close> and answers with a success envelope; a mismatch leaves \<open>verified\<close> as it was.

  The code at two inputs of the sample world: a wrong token for \<open>a@x.com\<close>, and the email
  \<open>c@x.com\<close> nobody has. The \<open>BadRequestException\<close> and the \<open>NotFoundException\<close> are thrown
  and logged, but what reaches the caller is an \<open>InternalServerErrorException\<close> both times.
\<close>

theorem verifyToken_failures_surface_as_internal_error:
  "fst (verifyToken deps0 ''a@x.com'' ''ffffff'' world0) =
     Inl (InternalServerErrorException ''Token could not be verified.'')
   \<and> console (snd (verifyToken deps0 ''a@x.com'' ''ffffff'' world0)) =
       [BadRequestException ''Invalid OTP'']
   \<and> fst (verifyToken deps0 ''c@x.com'' ''0a1b2c'' world0) =
       Inl (InternalServerErrorException ''Token could not be verified.'')
   \<and> console (snd (verifyToken deps0 ''c@x.com'' ''0a1b2c'' world0)) =
       [NotFoundException ''User could not be found.'']"
  by (simp add: verifyToken_def user_findUnique_def io_defs sample_defs)

section \<open>getById\<close>

lemma getById_present:
  assumes "\<not> faults d (tick w)" and "find (owned userid farmid) (farms w) = Some f"
  shows "getById d userid farmid w =
           (Inr (envelope ''Farm retrieved successfully'' ''success'' 200 (farm_json f)),
            w\<lparr>tick := Suc (tick w)\<rparr>)"
  using assms by (simp add: getById_def farm_findUnique_def io_defs envelope_def)

lemma getById_absent:
  assumes "\<not> faults d (tick w)" and "find (owned userid farmid) (farms w) = None"
  shows "getById d userid farmid w =
           (Inl (InternalServerErrorException ''Farm could not be retrieved''),
            w\<lparr>tick := Suc (tick w), console := console w @ [NotFoundException ''Farm not found.'']\<rparr>)"
  using assms by (simp add: getById_def farm_findUnique_def io_defs)

text \<open>
  Without a fault of the database, \<open>getById\<close> succeeds exactly when the user owns a farm
  with that identifier; a farm of another user and a farm that does not exist give the
  same failure.
\<close>

lemma getById_succeeds_iff_owned:
  assumes "\<not> faults d (tick w)"
  shows "(\<exists>r. fst (getById d userid farmid w) = Inr r) \<longleftrightarrow>
         (\<exists>f \<in> set (farms w). farm_id f = farmid \<and> farmerId f = userid)"
proof (cases "find (owned userid farmid) (farms w)")
  case None
  then have "\<forall>f \<in> set (farms w). \<not> owned userid farmid f"
    by (simp add: find_None_none)
  then show ?thesis
    using getById_absent [OF assms None] by (auto simp: owned_def)
next
  case (Some f)
  then have "f \<in> set (farms w)" and "owned userid farmid f"
    by (rule find_Some_member, rule find_Some_holds)
  then show ?thesis
    using getById_present [OF assms Some] by (auto simp: owned_def)
qed

text \<open>
  Claim C2: \<open>getFarm\<close> returns the farm if and only if a farm with that identifier is owned
  by the user, and otherwise fails with \<open>NotFound\<close>, a farm of another user being
  indistinguishable from no farm.

  The code in the sample world: user \<open>u2\<close> asks for \<open>f1\<close>, the farm of \<open>u1\<close>, and for
  \<open>f9\<close>, which does not exist. The \<open>NotFoundException\<close> is thrown and logged; both calls
  fail alike, but with an \<open>InternalServerErrorException\<close>. The owner gets the farm.
\<close>

theorem getById_foreign_farm_is_internal_error:
  "fst (getById deps0 ''u2'' ''f1'' world0) =
     Inl (InternalServerErrorException ''Farm could not be retrieved'')
   \<and> console (snd (getById deps0 ''u2'' ''f1'' world0)) = [NotFoundException ''Farm not found.'']
   \<and> fst (getById deps0 ''u2'' ''f9'' world0) =
       Inl (InternalServerErrorException ''Farm could not be retrieved'')
   \<and> fst (getById deps0 ''u1'' ''f1'' world0) =
       Inr (envelope ''Farm retrieved successfully'' ''success'' 200 (farm_json north_field))"
  by (simp add: getById_def farm_findUnique_def owned_def io_defs sample_defs envelope_def)

section \<open>login\<close>

lemma login_unverified_run:
  assumes rel: "reliable d"
    and found: "find (\<lambda>u. email u = login_email dto) (users w) = Some u"
    and unv: "verified u \<noteq> Some True"
    and pw: "argon_verify d (passwordhash u) (login_password dto)"
  shows "login d dto w =
     (Inr (envelope ''Please verify your account'' ''success'' 200 JNull),
      w\<lparr>tick := tick w + 4,
         drawn := drawn w + 3,
         users := update_first (\<lambda>x. email x = login_email dto)
                   (\<lambda>x. x\<lparr>token := Some (token_from d (drawn w))\<rparr>) (users w),
         emitted := emitted w @ [(''send-verification'',
             JObj [(''to'', JStr (email u)),
                   (''data'', JObj [(''name'', JStr (username u)),
                                    (''token'', JStr (token_from d (drawn w)))])])]\<rparr>)"
proof -
  have e: "email u = login_email dto" using find_Some_holds [OF found] .
  show ?thesis using rel found unv pw e
    by (simp add: login_def randomDigits_draws reliable_def io_defs user_findUnique_def
        user_update_def lib_defs envelope_def)
qed

lemma login_unverified_no_session:
  assumes found: "find (\<lambda>u. email u = login_email dto) (users w) = Some u"
    and unv: "verified u \<noteq> Some True"
  shows "signings (snd (login d dto w)) = signings w
       \<and> (\<forall>r. fst (login d dto w) = Inr r \<longrightarrow>
             r = envelope ''Please verify your account'' ''success'' 200 JNull)"
  using assms
  by (auto simp add: login_def user_findUnique_def argon_verify_call_def randomDigits_draws
      user_update_def emitter_emit_def io_defs envelope_def Let_def
      split: if_splits option.splits)

text \<open>
  Claim C3: for a user whose \<open>verified\<close> flag is false and whose password matches, \<open>login\<close>
  never issues a session token: it generates a new verification token, six lowercase
  hexadecimal characters made of three random bytes, stores it on the user record, emits a
  \<open>send-verification\<close> event that carries the token, and returns the envelope with the
  message \<open>Please verify your account\<close>, status \<open>success\<close>, code 200 and no data, which
  has no \<open>access_token\<close>. Nothing is handed to the signer and no answer has an
  \<open>access_token\<close>, whatever fails; the rest holds when no collaborator fails.
\<close>

theorem login_unverified_asks_to_verify:
  assumes found: "find (\<lambda>u. email u = login_email dto) (users w) = Some u"
    and unv: "verified u = Some False"
    and pw: "argon_verify d (passwordhash u) (login_password dto)"
  shows "signings (snd (login d dto w)) = signings w
       \<and> (\<forall>r. fst (login d dto w) = Inr r \<longrightarrow> json_get ''access_token'' r = None)
       \<and> (reliable d \<longrightarrow>
            fst (login d dto w) =
              Inr (JObj [(''message'', JStr ''Please verify your account''),
                         (''status'', JStr ''success''), (''statusCode'', JNum 200),
                         (''data'', JNull)])
            \<and> drawn (snd (login d dto w)) = drawn w + 3
            \<and> token_from d (drawn w) =
                toHex [entropy d (drawn w), entropy d (drawn w + 1), entropy d (drawn w + 2)]
            \<and> length (token_from d (drawn w)) = 6
            \<and> set (token_from d (drawn w)) \<subseteq> set ''0123456789abcdef''
            \<and> find (\<lambda>x. email x = login_email dto) (users (snd (login d dto w))) =
                Some (u\<lparr>token := Some (token_from d (drawn w))\<rparr>)
            \<and> emitted (snd (login d dto w)) =
                emitted w @ [(''send-verification'',
                  JObj [(''to'', JStr (email u)),
                        (''data'', JObj [(''name'', JStr (username u)),
                                         (''token'', JStr (token_from d (drawn w)))])])])"
proof -
  have unv': "verified u \<noteq> Some True" using unv by simp
  note never = login_unverified_no_session [OF found unv', of d]
  have nosign: "signings (snd (login d dto w)) = signings w"
    using never by (rule conjunct1)
  have noacc: "json_get ''access_token'' r = None" if "fst (login d dto w) = Inr r" for r
    using never that by (auto simp add: envelope_def)
  have e: "email u = login_email dto" using find_Some_holds [OF found] .
  have stored: "find (\<lambda>x. email x = login_email dto)
          (update_first (\<lambda>x. email x = login_email dto)
             (\<lambda>x. x\<lparr>token := Some (token_from d (drawn w))\<rparr>) (users w)) =
        Some (u\<lparr>token := Some (token_from d (drawn w))\<rparr>)"
    by (rule find_update_first [OF found]) (simp add: e)
  have len: "length (token_from d (drawn w)) = 6"
    by (simp add: token_from_def toHex_length)
  have chars: "set (token_from d (drawn w)) \<subseteq> set ''0123456789abcdef''"
    unfolding token_from_def by (rule toHex_chars)
  have smooth: "fst (login d dto w) =
              Inr (JObj [(''message'', JStr ''Please verify your account''),
                         (''status'', JStr ''success''), (''statusCode'', JNum 200),
                         (''data'', JNull)])
            \<and> drawn (snd (login d dto w)) = drawn w + 3
            \<and> find (\<lambda>x. email x = login_email dto) (users (snd (login d dto w))) =
                Some (u\<lparr>token := Some (token_from d (drawn w))\<rparr>)
            \<and> emitted (snd (login d dto w)) =
                emitted w @ [(''send-verification'',
                  JObj [(''to'', JStr (email u)),
                        (''data'', JObj [(''name'', JStr (username u)),
                                         (''token'', JStr (token_from d (drawn w)))])])]"
    if rel: "reliable d"
    unfolding login_unverified_run [OF rel found unv' pw] using stored
    by (simp add: envelope_def)
  have made: "token_from d (drawn w) =
                toHex [entropy d (drawn w), entropy d (drawn w + 1), entropy d (drawn w + 2)]"
    by (simp add: token_from_def)
  show ?thesis
    using nosign noacc smooth made len chars by blast
qed

theorem login_unverified_asks_to_verify_witness:
  "fst (login deps0 \<lparr>login_email = ''a@x.com'', login_password = ''pw-a''\<rparr> world0) =
     Inr (JObj [(''message'', JStr ''Please verify your account''), (''status'', JStr ''success''),
                 (''statusCode'', JNum 200), (''data'', JNull)])
   \<and> token_from deps0 (drawn world0) = ''abdf13''
   \<and> find (\<lambda>x. email x = ''a@x.com'')
        (users (snd (login deps0 \<lparr>login_email = ''a@x.com'', login_password = ''pw-a''\<rparr> world0))) =
       Some (alice\<lparr>token := Some ''abdf13''\<rparr>)
   \<and> signings (snd (login deps0 \<lparr>login_email = ''a@x.com'', login_password = ''pw-a''\<rparr> world0)) = []"
proof -
  have rel: "reliable deps0" by (simp add: reliable_def deps0_def)
  have found: "find (\<lambda>u. email u = login_email \<lparr>login_email = ''a@x.com'', login_password = ''pw-a''\<rparr>)
                 (users world0) = Some alice"
    by (simp add: sample_defs)
  have unv: "verified alice = Some False" by (simp add: alice_def)
  have pw: "argon_verify deps0 (passwordhash alice)
              (login_password \<lparr>login_email = ''a@x.com'', login_password = ''pw-a''\<rparr>)"
    by (simp add: sample_defs)
  have tok: "token_from deps0 (drawn world0) = ''abdf13''"
    by (simp add: token_from_def toHex_def hexDigit_def deps0_def world0_def)
  have s0: "signings world0 = []" by (simp add: world0_def)
  note t = login_unverified_asks_to_verify [OF found unv pw]
  note t3 = t [THEN conjunct2, THEN conjunct2, rule_format, OF rel]
  have 1: "fst (login deps0 \<lparr>login_email = ''a@x.com'', login_password = ''pw-a''\<rparr> world0) =
     Inr (JObj [(''message'', JStr ''Please verify your account''), (''status'', JStr ''success''),
                 (''statusCode'', JNum 200), (''data'', JNull)])"
    using t3 [THEN conjunct1] .
  have 2: "find (\<lambda>x. email x = ''a@x.com'')
        (users (snd (login deps0 \<lparr>login_email = ''a@x.com'', login_password = ''pw-a''\<rparr> world0))) =
       Some (alice\<lparr>token := Some ''abdf13''\<rparr>)"
    using t3 tok by simp
  have 3: "signings (snd (login deps0 \<lparr>login_email = ''a@x.com'', login_password = ''pw-a''\<rparr> world0)) = []"
    using t [THEN conjunct1] s0 by simp
  from 1 2 3 tok show ?thesis by blast
qed

text \<open>
  Claim C4: every failure of \<open>login\<close> reaches the caller as \<open>Unauthorized\<close>, be it an
  unknown email, a password that does not match, or a fault of a collaborator; \<open>login\<close>
  never fails with \<open>NotFound\<close>, \<open>BadRequest\<close> or \<open>InternalError\<close>. This holds for
  every schedule of faults.
\<close>

theorem login_fails_only_as_unauthorized:
  "(\<forall>e. fst (login d dto w) = Inl e \<longrightarrow>
        e = UnauthorizedException ''Login failed, try again.''
        \<and> (\<forall>m. e \<noteq> NotFoundException m) \<and> (\<forall>m. e \<noteq> BadRequestException m)
        \<and> (\<forall>m. e \<noteq> InternalServerErrorException m))
   \<and> (find (\<lambda>u. email u = login_email dto) (users w) = None \<longrightarrow>
        fst (login d dto w) = Inl (UnauthorizedException ''Login failed, try again.''))
   \<and> (\<forall>u. find (\<lambda>u. email u = login_email dto) (users w) = Some u
            \<and> \<not> argon_verify d (passwordhash u) (login_password dto) \<longrightarrow>
        fst (login d dto w) = Inl (UnauthorizedException ''Login failed, try again.''))
   \<and> (faults d (tick w) \<longrightarrow>
        fst (login d dto w) = Inl (UnauthorizedException ''Login failed, try again.''))"
proof (intro conjI allI impI)
  fix e
  assume "fst (login d dto w) = Inl e"
  then show "e = UnauthorizedException ''Login failed, try again.''"
    unfolding login_def try_catch_def throw_def by (auto split: prod.splits sum.splits)
  then show "e \<noteq> NotFoundException m" "e \<noteq> BadRequestException m"
    "e \<noteq> InternalServerErrorException m" for m
    by simp_all
next
  assume "find (\<lambda>u. email u = login_email dto) (users w) = None"
  then show "fst (login d dto w) = Inl (UnauthorizedException ''Login failed, try again.'')"
    by (simp add: login_def user_findUnique_def io_defs)
next
  fix u
  assume "find (\<lambda>u. email u = login_email dto) (users w) = Some u
            \<and> \<not> argon_verify d (passwordhash u) (login_password dto)"
  then show "fst (login d dto w) = Inl (UnauthorizedException ''Login failed, try again.'')"
    by (simp add: login_def user_findUnique_def argon_verify_call_def io_defs)
next
  assume "faults d (tick w)"
  then show "fst (login d dto w) = Inl (UnauthorizedException ''Login failed, try again.'')"
    by (simp add: login_def user_findUnique_def io_defs)
qed

theorem login_fails_only_as_unauthorized_witness:
  "fst (login deps0 \<lparr>login_email = ''c@x.com'', login_password = ''pw-c''\<rparr> world0) =
     Inl (UnauthorizedException ''Login failed, try again.'')
   \<and> fst (login deps0 \<lparr>login_email = ''a@x.com'', login_password = ''guess''\<rparr> world0) =
       Inl (UnauthorizedException ''Login failed, try again.'')
   \<and> fst (login (deps0\<lparr>faults := (\<lambda>n. n = 0)\<rparr>)
            \<lparr>login_email = ''a@x.com'', login_password = ''pw-a''\<rparr> world0) =
       Inl (UnauthorizedException ''Login failed, try again.'')"
proof -
  have a: "find (\<lambda>u. email u = login_email \<lparr>login_email = ''c@x.com'', login_password = ''pw-c''\<rparr>)
             (users world0) = None"
    by (simp add: sample_defs)
  have b: "find (\<lambda>u. email u = login_email \<lparr>login_email = ''a@x.com'', login_password = ''guess''\<rparr>)
             (users world0) = Some alice
           \<and> \<not> argon_verify deps0 (passwordhash alice)
                 (login_password \<lparr>login_email = ''a@x.com'', login_password = ''guess''\<rparr>)"
    by (simp add: sample_defs)
  have c: "faults (deps0\<lparr>faults := (\<lambda>n. n = 0)\<rparr>) (tick world0)"
    by (simp add: world0_def)
  from a login_fails_only_as_unauthorized
         [of deps0 "\<lparr>login_email = ''c@x.com'', login_password = ''pw-c''\<rparr>" world0]
  have 1: "fst (login deps0 \<lparr>login_email = ''c@x.com'', login_password = ''pw-c''\<rparr> world0) =
     Inl (UnauthorizedException ''Login failed, try again.'')"
    by blast
  from b login_fails_only_as_unauthorized
         [of deps0 "\<lparr>login_email = ''a@x.com'', login_password = ''guess''\<rparr>" world0]
  have 2: "fst (login deps0 \<lparr>login_email = ''a@x.com'', login_password = ''guess''\<rparr> world0) =
     Inl (UnauthorizedException ''Login failed, try again.'')"
    by blast
  from c login_fails_only_as_unauthorized
         [of "deps0\<lparr>faults := (\<lambda>n. n = 0)\<rparr>"
             "\<lparr>login_email = ''a@x.com'', login_password = ''pw-a''\<rparr>" world0]
  have 3: "fst (login (deps0\<lparr>faults := (\<lambda>n. n = 0)\<rparr>)
            \<lparr>login_email = ''a@x.com'', login_password = ''pw-a''\<rparr> world0) =
       Inl (UnauthorizedException ''Login failed, try again.'')"
    by blast
  from 1 2 3 show ?thesis by blast
qed

section \<open>forgotPassword\<close>

lemma forgotPassword_absent:
  assumes "\<not> faults d (tick w)" and "find (\<lambda>u. email u = forgot_email dto) (users w) = None"
  shows "forgotPassword d dto w =
           (Inl (InternalServerErrorException ''Retrieving password failed.''),
            w\<lparr>tick := Suc (tick w),
              console := console w @ [InternalServerErrorException ''Please try again.'']\<rparr>)"
  using assms
  by (simp add: forgotPassword_def getUserByEmail_def user_findUnique_def io_defs)

lemma forgotPassword_existing:
  assumes rel: "reliable d"
    and found: "find (\<lambda>u. email u = forgot_email dto) (users w) = Some u"
  shows "forgotPassword d dto w =
           (Inr (envelope ''Reset token has been sent to your email'' ''success'' 200 JNull),
            w\<lparr>tick := tick w + 3,
              drawn := drawn w + 3,
              users := update_first (\<lambda>x. email x = forgot_email dto)
                         (\<lambda>x. x\<lparr>resetToken := Some (token_from d (drawn w))\<rparr>) (users w),
              emitted := emitted w @
                 [(''send-reset-token'', JObj [(''resetToken'', JStr (token_from d (drawn w)))])]\<rparr>)"
proof -
  have e: "email u = forgot_email dto" using find_Some_holds [OF found] .
  show ?thesis using rel found e
    by (simp add: forgotPassword_def getUserByEmail_def randomDigits_draws reliable_def io_defs
        user_findUnique_def user_update_def emitter_emit_def envelope_def)
qed

text \<open>
  Claim C5: \<open>forgotPassword\<close> fails with \<open>NotFound\<close> for an email no user has, and for
  an existing user generates a reset token, stores it, emits a \<open>send-reset-token\<close> event
  and returns a success envelope.

  The code for the email \<open>c@x.com\<close>, which nobody has in the sample world: the
  \<open>NotFoundException\<close> of \<open>getUserByEmail\<close> is replaced by that method's own \<open>catch\<close>,
  and again by the one of \<open>forgotPassword\<close>; the caller gets an
  \<open>InternalServerErrorException\<close>.
\<close>

theorem forgotPassword_unknown_email_is_internal_error:
  "fst (forgotPassword deps0 \<lparr>forgot_email = ''c@x.com''\<rparr> world0) =
     Inl (InternalServerErrorException ''Retrieving password failed.'')
   \<and> console (snd (forgotPassword deps0 \<lparr>forgot_email = ''c@x.com''\<rparr> world0)) =
       [InternalServerErrorException ''Please try again.'']
   \<and> fst (getUserByEmail deps0 ''c@x.com'' world0) =
       Inl (InternalServerErrorException ''Please try again.'')"
  by (simp add: forgotPassword_def getUserByEmail_def user_findUnique_def io_defs sample_defs)

text \<open>
  Claim C8: each of the events \<open>welcome-email\<close>, \<open>send-verification\<close> and
  \<open>send-reset-token\<close> carries a recipient address and a data payload; in particular the
  \<open>send-reset-token\<close> event of \<open>forgotPassword\<close> carries the email address of the user.

  The events the code emits in the sample world: the payload of \<open>send-reset-token\<close> is
  the token alone, with neither \<open>to\<close> nor \<open>data\<close>, while the two other events have both.
\<close>

theorem reset_token_event_has_no_recipient:
  "emitted (snd (forgotPassword deps0 \<lparr>forgot_email = ''b@x.com''\<rparr> world0)) =
     [(''send-reset-token'', JObj [(''resetToken'', JStr ''abdf13'')])]
   \<and> json_get ''to'' (JObj [(''resetToken'', JStr ''abdf13'')]) = None
   \<and> json_get ''data'' (JObj [(''resetToken'', JStr ''abdf13'')]) = None
   \<and> emitted (snd (login deps0 \<lparr>login_email = ''a@x.com'', login_password = ''pw-a''\<rparr> world0)) =
       [(''send-verification'',
         JObj [(''to'', JStr ''a@x.com''),
               (''data'', JObj [(''name'', JStr ''alice''), (''token'', JStr ''abdf13'')])])]
   \<and> emitted (snd (register deps0
         \<lparr>reg_email = ''c@x.com'', reg_username = ''carol'', reg_firstname = ''Carol'',
          reg_lastname = ''C'', reg_password = ''pw-c''\<rparr> world0)) =
       [(''welcome-email'',
         JObj [(''to'', JStr ''c@x.com''), (''data'', JObj [(''name'', JStr ''carol'')])])]"
  by (simp add: forgotPassword_def getUserByEmail_def login_def register_def randomDigits_def
      toHex_def hexDigit_def argon_verify_call_def argon_hash_call_def randomBytes_def
      emitter_emit_def user_findUnique_def user_update_def user_create_def io_defs sample_defs
      select_def user_json_def upt_rec Let_def)

section \<open>resetPassword\<close>

lemma map_update_first:
  "(\<And>x. g (f x) = g x) \<Longrightarrow> map g (update_first P f xs) = map g xs"
  by (induction xs) auto

lemma find_map_same:
  "(\<And>x. P (h x) = P x) \<Longrightarrow> find P (map h xs) = map_option h (find P xs)"
  by (induction xs) auto

lemma resetPassword_run:
  assumes rel: "reliable d"
    and found: "find (\<lambda>u. email u = reset_email dto) (users w) = Some u"
  shows "resetPassword d dto w =
           (Inr (envelope ''Password Reset successfully.'' ''success'' 200 JNull),
            w\<lparr>tick := tick w + 2,
              users := update_first (\<lambda>x. email x = reset_email dto)
                         (\<lambda>x. x\<lparr>passwordhash := argon_hash d (reset_newPassword dto)\<rparr>) (users w)\<rparr>)"
  using assms
  by (simp add: resetPassword_def argon_hash_call_def reliable_def io_defs user_update_def
      envelope_def)

text \<open>
  Claim C6: for an existing user and any new password, \<open>resetPassword\<close> hashes the
  password, overwrites the stored hash and returns a success envelope, without any check
  of the stored reset token, which is neither read nor cleared: the stored reset tokens
  are the same afterwards, and the answer is the same whatever they are.
  (No collaborator fails.)
\<close>

theorem resetPassword_overwrites_without_token_check:
  assumes rel: "reliable d"
    and found: "find (\<lambda>u. email u = reset_email dto) (users w) = Some u"
  shows "fst (resetPassword d dto w) =
           Inr (envelope ''Password Reset successfully.'' ''success'' 200 JNull)
       \<and> find (\<lambda>x. email x = reset_email dto) (users (snd (resetPassword d dto w))) =
           Some (u\<lparr>passwordhash := argon_hash d (reset_newPassword dto)\<rparr>)
       \<and> map resetToken (users (snd (resetPassword d dto w))) = map resetToken (users w)
       \<and> (\<forall>rt. fst (resetPassword d dto (w\<lparr>users := map (\<lambda>x. x\<lparr>resetToken := rt x\<rparr>) (users w)\<rparr>)) =
                fst (resetPassword d dto w))"
proof -
  note run = resetPassword_run [OF rel found]
  have e: "email u = reset_email dto" using find_Some_holds [OF found] .
  have stored: "find (\<lambda>x. email x = reset_email dto)
          (update_first (\<lambda>x. email x = reset_email dto)
             (\<lambda>x. x\<lparr>passwordhash := argon_hash d (reset_newPassword dto)\<rparr>) (users w)) =
        Some (u\<lparr>passwordhash := argon_hash d (reset_newPassword dto)\<rparr>)"
    by (rule find_update_first [OF found]) (simp add: e)
  have kept: "map resetToken (update_first (\<lambda>x. email x = reset_email dto)
             (\<lambda>x. x\<lparr>passwordhash := argon_hash d (reset_newPassword dto)\<rparr>) (users w)) =
        map resetToken (users w)"
    by (rule map_update_first) simp
  have indep: "fst (resetPassword d dto (w\<lparr>users := map (\<lambda>x. x\<lparr>resetToken := rt x\<rparr>) (users w)\<rparr>)) =
                fst (resetPassword d dto w)" for rt
  proof -
    have "find (\<lambda>u. email u = reset_email dto)
            (users (w\<lparr>users := map (\<lambda>x. x\<lparr>resetToken := rt x\<rparr>) (users w)\<rparr>)) =
          Some (u\<lparr>resetToken := rt u\<rparr>)"
      using found by (simp add: find_map_same)
    from resetPassword_run [OF rel this] run show ?thesis by simp
  qed
  have ok: "fst (resetPassword d dto w) =
           Inr (envelope ''Password Reset successfully.'' ''success'' 200 JNull)"
    by (simp add: run)
  have stored': "find (\<lambda>x. email x = reset_email dto) (users (snd (resetPassword d dto w))) =
           Some (u\<lparr>passwordhash := argon_hash d (reset_newPassword dto)\<rparr>)"
    using stored by (simp add: run)
  have kept': "map resetToken (users (snd (resetPassword d dto w))) = map resetToken (users w)"
    using kept by (simp add: run)
  show ?thesis
    using ok stored' kept' indep by blast
qed

theorem resetPassword_overwrites_without_token_check_witness:
  "fst (resetPassword deps0 \<lparr>reset_email = ''a@x.com'', reset_newPassword = ''new''\<rparr> world0) =
     Inr (JObj [(''message'', JStr ''Password Reset successfully.''), (''status'', JStr ''success''),
                (''statusCode'', JNum 200), (''data'', JNull)])
   \<and> find (\<lambda>x. email x = ''a@x.com'')
        (users (snd (resetPassword deps0
           \<lparr>reset_email = ''a@x.com'', reset_newPassword = ''new''\<rparr> world0))) =
       Some (alice\<lparr>passwordhash := ''#new''\<rparr>)
   \<and> resetToken alice = None
   \<and> map resetToken (users (snd (resetPassword deps0
           \<lparr>reset_email = ''a@x.com'', reset_newPassword = ''new''\<rparr> world0))) =
       [None, Some ''123abc'']"
proof -
  have rel: "reliable deps0" by (simp add: reliable_def deps0_def)
  have found: "find (\<lambda>u. email u = reset_email \<lparr>reset_email = ''a@x.com'', reset_newPassword = ''new''\<rparr>)
                 (users world0) = Some alice"
    by (simp add: sample_defs)
  have toks: "map resetToken (users world0) = [None, Some ''123abc'']"
    by (simp add: sample_defs)
  have h: "argon_hash deps0 ''new'' = ''#new''" by (simp add: deps0_def)
  note t = resetPassword_overwrites_without_token_check [OF rel found]
  have 1: "fst (resetPassword deps0 \<lparr>reset_email = ''a@x.com'', reset_newPassword = ''new''\<rparr> world0) =
     Inr (JObj [(''message'', JStr ''Password Reset successfully.''), (''status'', JStr ''success''),
                (''statusCode'', JNum 200), (''data'', JNull)])"
    using t [THEN conjunct1] by (simp add: envelope_def)
  have 2: "find (\<lambda>x. email x = ''a@x.com'')
        (users (snd (resetPassword deps0
           \<lparr>reset_email = ''a@x.com'', reset_newPassword = ''new''\<rparr> world0))) =
       Some (alice\<lparr>passwordhash := ''#new''\<rparr>)"
    using t [THEN conjunct2, THEN conjunct1] h by simp
  have 3: "map resetToken (users (snd (resetPassword deps0
           \<lparr>reset_email = ''a@x.com'', reset_newPassword = ''new''\<rparr> world0))) =
       [None, Some ''123abc'']"
    using t [THEN conjunct2, THEN conjunct2, THEN conjunct1] toks by simp
  have 4: "resetToken alice = None" by (simp add: alice_def)
  from 1 2 3 4 show ?thesis by blast
qed

section \<open>getFarms\<close>

text \<open>
  Claim C9: for every user, \<open>getFarms\<close> returns a success envelope with code 200 whose
  data is the list of the farms of that user, the empty list when there are none; the
  \<open>NotFoundException\<close> with the message \<open>No farms found.\<close> is never thrown. The only
  error \<open>getFarms\<close> ever catches, and logs, is a fault of the database call.
\<close>

theorem getFarms_always_lists:
  "(\<not> faults d (tick w) \<longrightarrow>
      fst (getFarms d userid w) =
        Inr (JObj [(''message'', JStr ''Farms retrieved.''), (''status'', JStr ''success''),
                   (''statusCode'', JNum 200),
                   (''data'', JArr (map farm_json (filter (\<lambda>f. farmerId f = userid) (farms w))))]))
   \<and> (\<not> faults d (tick w) \<and> (\<forall>f \<in> set (farms w). farmerId f \<noteq> userid) \<longrightarrow>
        fst (getFarms d userid w) = Inr (envelope ''Farms retrieved.'' ''success'' 200 (JArr [])))
   \<and> console (snd (getFarms d userid w)) =
       (if faults d (tick w) then console w @ [ExternalFault (tick w)] else console w)
   \<and> (\<forall>e. fst (getFarms d userid w) = Inl e \<longrightarrow> faults d (tick w))"
proof -
  have none: "filter (\<lambda>f. farmerId f = userid) (farms w) = []"
    if "\<forall>f \<in> set (farms w). farmerId f \<noteq> userid"
    using that by (simp add: filter_empty_conv)
  show ?thesis
    using none by (simp add: getFarms_def farm_findMany_def io_defs envelope_def)
qed

theorem getFarms_always_lists_witness:
  "fst (getFarms deps0 ''u1'' world0) =
     Inr (JObj [(''message'', JStr ''Farms retrieved.''), (''status'', JStr ''success''),
                (''statusCode'', JNum 200), (''data'', JArr [farm_json north_field])])
   \<and> fst (getFarms deps0 ''u3'' world0) =
       Inr (JObj [(''message'', JStr ''Farms retrieved.''), (''status'', JStr ''success''),
                  (''statusCode'', JNum 200), (''data'', JArr [])])
   \<and> console (snd (getFarms deps0 ''u3'' world0)) = []
   \<and> console (snd (getFarms (deps0\<lparr>faults := (\<lambda>n. n = 0)\<rparr>) ''u1'' world0)) = [ExternalFault 0]"
proof -
  have ok: "\<not> faults deps0 (tick world0)" by (simp add: deps0_def)
  have bad: "faults (deps0\<lparr>faults := (\<lambda>n. n = 0)\<rparr>) (tick world0)" by (simp add: world0_def)
  have none: "\<forall>f \<in> set (farms world0). farmerId f \<noteq> ''u3''" by (simp add: sample_defs)
  have mine: "filter (\<lambda>f. farmerId f = ''u1'') (farms world0) = [north_field]"
    by (simp add: sample_defs)
  have c0: "console world0 = []" and t0: "tick world0 = 0" by (simp_all add: world0_def)
  have 1: "fst (getFarms deps0 ''u1'' world0) =
     Inr (JObj [(''message'', JStr ''Farms retrieved.''), (''status'', JStr ''success''),
                (''statusCode'', JNum 200), (''data'', JArr [farm_json north_field])])"
    using getFarms_always_lists [of deps0 world0 "''u1''", THEN conjunct1] ok mine by simp
  have 2: "fst (getFarms deps0 ''u3'' world0) =
       Inr (JObj [(''message'', JStr ''Farms retrieved.''), (''status'', JStr ''success''),
                  (''statusCode'', JNum 200), (''data'', JArr [])])"
    using getFarms_always_lists [of deps0 world0 "''u3''", THEN conjunct2, THEN conjunct1] ok none
    by (simp add: envelope_def)
  have 3: "console (snd (getFarms deps0 ''u3'' world0)) = []"
    using getFarms_always_lists [of deps0 world0 "''u3''", THEN conjunct2, THEN conjunct2,
        THEN conjunct1] ok c0
    by simp
  have 4: "console (snd (getFarms (deps0\<lparr>faults := (\<lambda>n. n = 0)\<rparr>) ''u1'' world0)) =
             [ExternalFault 0]"
    using getFarms_always_lists [of "deps0\<lparr>faults := (\<lambda>n. n = 0)\<rparr>" world0 "''u1''",
        THEN conjunct2, THEN conjunct2, THEN conjunct1] bad c0 t0
    by simp
  from 1 2 3 4 show ?thesis by blast
qed

section \<open>login of a verified user\<close>

lemma login_verified_run:
  assumes rel: "reliable d"
    and found: "find (\<lambda>u. email u = login_email dto) (users w) = Some u"
    and ver: "verified u = Some True"
    and pw: "argon_verify d (passwordhash u) (login_password dto)"
  shows "login d dto w =
     (Inr (JObj [(''access_token'',
             JStr (jwt_sign d (JObj [(''sub'', JStr (user_id u)), (''email'', JStr (email u))])
                     (config_get d ''JWT_SECRET'') (config_get d ''JWT_EXPIRE'')))]),
      w\<lparr>tick := tick w + 3,
         signings := signings w @ [JObj [(''sub'', JStr (user_id u)), (''email'', JStr (email u))]]\<rparr>)"
  using assms
  by (simp add: login_def reliable_def io_defs user_findUnique_def argon_verify_call_def
      jwt_signAsync_def Let_def)

lemma login_verified_frame:
  assumes found: "find (\<lambda>u. email u = login_email dto) (users w) = Some u"
    and ver: "verified u = Some True"
  shows "users (snd (login d dto w)) = users w \<and> farms (snd (login d dto w)) = farms w
       \<and> emitted (snd (login d dto w)) = emitted w"
  using assms
  by (simp add: login_def io_defs user_findUnique_def argon_verify_call_def jwt_signAsync_def Let_def)

text \<open>
  Claim C10: for a user whose \<open>verified\<close> flag is true and whose password matches, a
  successful \<open>login\<close> writes nothing to the stored user record: email, username, password
  hash, \<open>verified\<close>, verification token and reset token are as before; it only signs a
  session token and returns it. The collection of users is left as it is whether or not
  a collaborator fails; when none fails, the answer is the signed token.
\<close>

theorem login_verified_writes_nothing:
  assumes found: "find (\<lambda>u. email u = login_email dto) (users w) = Some u"
    and ver: "verified u = Some True"
    and pw: "argon_verify d (passwordhash u) (login_password dto)"
  shows "users (snd (login d dto w)) = users w
       \<and> find (\<lambda>u. email u = login_email dto) (users (snd (login d dto w))) = Some u
       \<and> farms (snd (login d dto w)) = farms w
       \<and> emitted (snd (login d dto w)) = emitted w
       \<and> (reliable d \<longrightarrow>
            fst (login d dto w) =
              Inr (JObj [(''access_token'',
                     JStr (jwt_sign d (JObj [(''sub'', JStr (user_id u)), (''email'', JStr (email u))])
                             (config_get d ''JWT_SECRET'') (config_get d ''JWT_EXPIRE'')))])
            \<and> signings (snd (login d dto w)) =
                signings w @ [JObj [(''sub'', JStr (user_id u)), (''email'', JStr (email u))]])"
proof -
  note frame = login_verified_frame [OF found ver, of d]
  have same: "find (\<lambda>u. email u = login_email dto) (users (snd (login d dto w))) = Some u"
    using frame found by simp
  have issued: "fst (login d dto w) =
              Inr (JObj [(''access_token'',
                     JStr (jwt_sign d (JObj [(''sub'', JStr (user_id u)), (''email'', JStr (email u))])
                             (config_get d ''JWT_SECRET'') (config_get d ''JWT_EXPIRE'')))])
            \<and> signings (snd (login d dto w)) =
                signings w @ [JObj [(''sub'', JStr (user_id u)), (''email'', JStr (email u))]]"
    if "reliable d"
    by (simp add: login_verified_run [OF that found ver pw])
  show ?thesis using frame same issued by blast
qed

theorem login_verified_writes_nothing_witness:
  "users (snd (login deps0 \<lparr>login_email = ''b@x.com'', login_password = ''pw-b''\<rparr> world0)) =
     [alice, bob]
   \<and> fst (login deps0 \<lparr>login_email = ''b@x.com'', login_password = ''pw-b''\<rparr> world0) =
       Inr (JObj [(''access_token'', JStr ''jwt-u2'')])"
proof -
  have rel: "reliable deps0" by (simp add: reliable_def deps0_def)
  have found: "find (\<lambda>u. email u = login_email \<lparr>login_email = ''b@x.com'', login_password = ''pw-b''\<rparr>)
                 (users world0) = Some bob"
    by (simp add: sample_defs)
  have ver: "verified bob = Some True" by (simp add: bob_def)
  have pw: "argon_verify deps0 (passwordhash bob)
              (login_password \<lparr>login_email = ''b@x.com'', login_password = ''pw-b''\<rparr>)"
    by (simp add: sample_defs)
  have us: "users world0 = [alice, bob]" by (simp add: world0_def)
  have tok: "jwt_sign deps0 (JObj [(''sub'', JStr (user_id bob)), (''email'', JStr (email bob))])
                (config_get deps0 ''JWT_SECRET'') (config_get deps0 ''JWT_EXPIRE'') = ''jwt-u2''"
    by (simp add: deps0_def bob_def)
  show ?thesis
    using login_verified_writes_nothing [OF found ver pw] rel us tok by simp
qed

section \<open>What the responses contain\<close>

text \<open>
  The stored password hashes have no part in any answer beyond what the verifier says
  of them: with every stored hash replaced by another value, and a verifier that accepts
  for the new values the passwords the old one accepted, each operation answers the same.
\<close>

lemma find_rehash:
  "find (\<lambda>u. email u = e) (map (\<lambda>u. u\<lparr>passwordhash := h u\<rparr>) us) =
     map_option (\<lambda>u. u\<lparr>passwordhash := h u\<rparr>) (find (\<lambda>u. email u = e) us)"
  by (rule find_map_same) simp

lemma find_id_rehash:
  "find (\<lambda>u. user_id u = i) (map (\<lambda>u. u\<lparr>passwordhash := h u\<rparr>) us) =
     map_option (\<lambda>u. u\<lparr>passwordhash := h u\<rparr>) (find (\<lambda>u. user_id u = i) us)"
  by (rule find_map_same) simp

lemma login_hash_blind:
  assumes same: "\<forall>u \<in> set (users w). \<forall>p. v (h u) p = argon_verify d (passwordhash u) p"
  shows "fst (login (d\<lparr>argon_verify := v\<rparr>) dto
                (w\<lparr>users := map (\<lambda>u. u\<lparr>passwordhash := h u\<rparr>) (users w)\<rparr>)) =
         fst (login d dto w)"
proof (cases "find (\<lambda>u. email u = login_email dto) (users w)")
  case None
  then show ?thesis
    by (simp add: login_def user_findUnique_def io_defs find_rehash)
next
  case (Some u)
  then have "u \<in> set (users w)" by (rule find_Some_member)
  with same have v: "v (h u) (login_password dto) = argon_verify d (passwordhash u) (login_password dto)"
    by blast
  have e: "email u = login_email dto" using find_Some_holds [OF Some] .
  show ?thesis using Some v e
    by (simp add: login_def user_findUnique_def argon_verify_call_def randomDigits_draws
        user_update_def jwt_signAsync_def emitter_emit_def io_defs find_rehash Let_def)
qed

lemma register_hash_blind:
  "fst (register (d\<lparr>argon_verify := v\<rparr>) dto
                (w\<lparr>users := map (\<lambda>u. u\<lparr>passwordhash := h u\<rparr>) (users w)\<rparr>)) =
         fst (register d dto w)"
  by (simp add: register_def argon_hash_call_def user_create_def emitter_emit_def io_defs
      select_def user_json_def Let_def)

lemma forgotPassword_hash_blind:
  "fst (forgotPassword (d\<lparr>argon_verify := v\<rparr>) dto
                (w\<lparr>users := map (\<lambda>u. u\<lparr>passwordhash := h u\<rparr>) (users w)\<rparr>)) =
         fst (forgotPassword d dto w)"
proof (cases "find (\<lambda>u. email u = forgot_email dto) (users w)")
  case None
  then show ?thesis
    by (simp add: forgotPassword_def getUserByEmail_def user_findUnique_def io_defs find_rehash)
next
  case (Some u)
  have e: "email u = forgot_email dto" using find_Some_holds [OF Some] .
  show ?thesis using Some e
    by (simp add: forgotPassword_def getUserByEmail_def user_findUnique_def randomDigits_draws
        user_update_def emitter_emit_def io_defs find_rehash)
qed

lemma verifyToken_hash_blind:
  "fst (verifyToken (d\<lparr>argon_verify := v\<rparr>) e t
                (w\<lparr>users := map (\<lambda>u. u\<lparr>passwordhash := h u\<rparr>) (users w)\<rparr>)) =
         fst (verifyToken d e t w)"
  by (cases "find (\<lambda>u. email u = e) (users w)")
    (auto simp add: verifyToken_def user_findUnique_def user_update_def io_defs find_rehash)

lemma resetPassword_hash_blind:
  "fst (resetPassword (d\<lparr>argon_verify := v\<rparr>) dto
                (w\<lparr>users := map (\<lambda>u. u\<lparr>passwordhash := h u\<rparr>) (users w)\<rparr>)) =
         fst (resetPassword d dto w)"
  by (cases "find (\<lambda>u. email u = reset_email dto) (users w)")
    (auto simp add: resetPassword_def argon_hash_call_def user_update_def io_defs find_rehash)

lemma createFarm_hash_blind:
  "fst (createFarm (d\<lparr>argon_verify := v\<rparr>) userid dto
                (w\<lparr>users := map (\<lambda>u. u\<lparr>passwordhash := h u\<rparr>) (users w)\<rparr>)) =
         fst (createFarm d userid dto w)"
  by (cases "find (\<lambda>u. user_id u = userid) (users w)")
    (auto simp add: createFarm_def farm_create_def user_connect_farm_def io_defs find_id_rehash
      Let_def split: option.splits)

lemma farm_reads_hash_blind:
  "fst (getFarms (d\<lparr>argon_verify := v\<rparr>) userid
                (w\<lparr>users := map (\<lambda>u. u\<lparr>passwordhash := h u\<rparr>) (users w)\<rparr>)) =
         fst (getFarms d userid w)"
  "fst (getById (d\<lparr>argon_verify := v\<rparr>) userid farmid
                (w\<lparr>users := map (\<lambda>u. u\<lparr>passwordhash := h u\<rparr>) (users w)\<rparr>)) =
         fst (getById d userid farmid w)"
  "fst (updateFarm (d\<lparr>argon_verify := v\<rparr>) userid farmid udto
                (w\<lparr>users := map (\<lambda>u. u\<lparr>passwordhash := h u\<rparr>) (users w)\<rparr>)) =
         fst (updateFarm d userid farmid udto w)"
  "fst (deleteFarm (d\<lparr>argon_verify := v\<rparr>) userid farmid
                (w\<lparr>users := map (\<lambda>u. u\<lparr>passwordhash := h u\<rparr>) (users w)\<rparr>)) =
         fst (deleteFarm d userid farmid w)"
  by (auto simp add: getFarms_def farm_findMany_def getById_def farm_findUnique_def
      updateFarm_def farm_update_def deleteFarm_def farm_delete_def io_defs Let_def
      split: option.splits)


lemma perform_hash_blind:
  assumes same: "\<forall>u \<in> set (users w). \<forall>p. v (h u) p = argon_verify d (passwordhash u) p"
  shows "fst (perform (d\<lparr>argon_verify := v\<rparr>) r
                (w\<lparr>users := map (\<lambda>u. u\<lparr>passwordhash := h u\<rparr>) (users w)\<rparr>)) =
         fst (perform d r w)"
  by (cases r)
    (simp_all add: login_hash_blind [OF same] register_hash_blind forgotPassword_hash_blind
      verifyToken_hash_blind resetPassword_hash_blind createFarm_hash_blind farm_reads_hash_blind)

text \<open>The answer of each operation when it succeeds.\<close>

lemma register_Inr:
  assumes "fst (register d dto w) = Inr r"
  shows "r = envelope ''User registered.'' ''Success'' 201
               (JObj [(''email'', JStr (reg_email dto)), (''username'', JStr (reg_username dto))])"
  using assms
  by (auto simp add: register_def argon_hash_call_def user_create_def emitter_emit_def io_defs
      select_def user_json_def envelope_def Let_def split: if_splits)

lemma login_Inr:
  assumes "fst (login d dto w) = Inr r"
  shows "r = envelope ''Please verify your account'' ''success'' 200 JNull
         \<or> (\<exists>u. find (\<lambda>u. email u = login_email dto) (users w) = Some u \<and>
              r = JObj [(''access_token'',
                   JStr (jwt_sign d (JObj [(''sub'', JStr (user_id u)), (''email'', JStr (email u))])
                           (config_get d ''JWT_SECRET'') (config_get d ''JWT_EXPIRE'')))])"
  using assms
  by (auto simp add: login_def user_findUnique_def argon_verify_call_def randomDigits_draws
      user_update_def jwt_signAsync_def emitter_emit_def io_defs envelope_def Let_def
      split: if_splits option.splits)

lemma forgotPassword_Inr:
  assumes "fst (forgotPassword d dto w) = Inr r"
  shows "r = envelope ''Reset token has been sent to your email'' ''success'' 200 JNull"
  using assms
  by (auto simp add: forgotPassword_def getUserByEmail_def user_findUnique_def randomDigits_draws
      user_update_def emitter_emit_def io_defs envelope_def
      split: if_splits option.splits)

lemma verifyToken_Inr:
  assumes "fst (verifyToken d e t w) = Inr r"
  shows "r = envelope ''Valid Token'' ''success'' 200 JNull"
  using assms
  by (auto simp add: verifyToken_def user_findUnique_def user_update_def io_defs envelope_def
      split: if_splits option.splits)

lemma resetPassword_Inr:
  assumes "fst (resetPassword d dto w) = Inr r"
  shows "r = envelope ''Password Reset successfully.'' ''success'' 200 JNull"
  using assms
  by (auto simp add: resetPassword_def argon_hash_call_def user_update_def io_defs envelope_def
      split: if_splits option.splits)

lemma createFarm_Inr:
  assumes "fst (createFarm d userid dto w) = Inr r"
  shows "r = envelope ''Farm created'' ''success'' 201
               (farm_json \<lparr>farm_id = objectId d (allocated w), farmerId = userid,
                           name = cf_name dto, location = cf_location dto,
                           farm_size = cf_size dto, size_unit = cf_size_unit dto,
                           status = cf_status dto, soil = cf_soilInfo dto,
                           created_at = Some (clock d (Suc (tick w))),
                           updated_at = Some (clock d (Suc (tick w)))\<rparr>)"
  using assms
  by (auto simp add: createFarm_def farm_create_def user_connect_farm_def io_defs envelope_def
      Let_def split: if_splits option.splits)

lemma getFarms_Inr:
  assumes "fst (getFarms d userid w) = Inr r"
  shows "r = envelope ''Farms retrieved.'' ''success'' 200
               (JArr (map farm_json (filter (\<lambda>f. farmerId f = userid) (farms w))))"
  using assms
  by (auto simp add: getFarms_def farm_findMany_def io_defs envelope_def split: if_splits)

lemma getById_Inr:
  assumes "fst (getById d userid farmid w) = Inr r"
  shows "\<exists>f. find (owned userid farmid) (farms w) = Some f
             \<and> r = envelope ''Farm retrieved successfully'' ''success'' 200 (farm_json f)"
  using assms
  by (auto simp add: getById_def farm_findUnique_def io_defs envelope_def
      split: if_splits option.splits)

lemma updateFarm_Inr:
  assumes "fst (updateFarm d userid farmid dto w) = Inr r"
  shows "\<exists>f. find (owned userid farmid) (farms w) = Some f
             \<and> r = envelope ''Farm updated successfully'' ''success'' 200
                   (farm_json (f\<lparr>name := uf_name dto,
                      location := (case uf_location dto of None \<Rightarrow> location f | Some l \<Rightarrow> l),
                      farm_size := uf_size dto,
                      size_unit := uf_size_unit dto,
                      status := uf_status dto,
                      soil := (case uf_soil dto of None \<Rightarrow> soil f | Some s \<Rightarrow> s),
                      updated_at := Some (clock d (Suc (tick w)))\<rparr>))"
  using assms
  by (auto simp add: updateFarm_def farm_update_def io_defs envelope_def Let_def
      split: if_splits option.splits)

lemma deleteFarm_Inr:
  assumes "fst (deleteFarm d userid farmid w) = Inr r"
  shows "r = envelope ''Farm deleted successfully'' ''success'' 200 JNull"
  using assms
  by (auto simp add: deleteFarm_def farm_delete_def io_defs envelope_def
      split: if_splits option.splits)

lemma farm_json_keys:
  "json_keys (farm_json f) =
     [''id'', ''farmerId'', ''name'', ''location'', ''longitude'', ''latitude'', ''size'',
      ''size_unit'', ''status'', ''soil'', ''soilpH'', ''soilType'', ''created_at'',
      ''updated_at'']"
  by (cases "created_at f"; cases "updated_at f") (simp_all add: farm_json_def null_or_def)

lemma envelope_keys:
  "json_keys (envelope m s c v) = [''message'', ''status'', ''statusCode'', ''data''] @ json_keys v"
  by (simp add: envelope_def)

lemma farms_json_keys: "''passwordhash'' \<notin> set (json_keys (JArr (map farm_json fs)))"
  by (simp add: farm_json_keys)

text \<open>
  Claim C7: no response of an operation of the two services contains the password hash of
  the user. Each successful response is given in full: the data of \<open>register\<close> are the two
  public fields \<open>email\<close> and \<open>username\<close> of the request; a login that completes returns
  an object whose single field \<open>access_token\<close> is what the signer makes of the identifier
  and the email of the user; the other operations of \<open>AuthService\<close> and \<open>deleteFarm\<close>
  return no data; the other operations of \<open>FarmService\<close> return the farm records of the
  database, which have no field of a user. No field named \<open>passwordhash\<close> occurs at any
  depth, and the response stays the same when the stored hashes are replaced.
\<close>

theorem responses_never_expose_passwordhash:
  assumes ok: "fst (perform d r w) = Inr resp"
  shows "''passwordhash'' \<notin> set (json_keys resp)
       \<and> (case r of
            Register dto \<Rightarrow>
              resp = envelope ''User registered.'' ''Success'' 201
                       (JObj [(''email'', JStr (reg_email dto)),
                              (''username'', JStr (reg_username dto))])
          | Login dto \<Rightarrow>
              resp = envelope ''Please verify your account'' ''success'' 200 JNull
              \<or> (\<exists>u. find (\<lambda>u. email u = login_email dto) (users w) = Some u
                    \<and> resp = JObj [(''access_token'',
                         JStr (jwt_sign d (JObj [(''sub'', JStr (user_id u)),
                                                 (''email'', JStr (email u))])
                                 (config_get d ''JWT_SECRET'') (config_get d ''JWT_EXPIRE'')))])
          | ForgotPassword dto \<Rightarrow>
              resp = envelope ''Reset token has been sent to your email'' ''success'' 200 JNull
          | VerifyToken e t \<Rightarrow> resp = envelope ''Valid Token'' ''success'' 200 JNull
          | ResetPassword dto \<Rightarrow>
              resp = envelope ''Password Reset successfully.'' ''success'' 200 JNull
          | CreateFarm userid dto \<Rightarrow>
              resp = envelope ''Farm created'' ''success'' 201
                       (farm_json \<lparr>farm_id = objectId d (allocated w), farmerId = userid,
                           name = cf_name dto, location = cf_location dto,
                           farm_size = cf_size dto, size_unit = cf_size_unit dto,
                           status = cf_status dto, soil = cf_soilInfo dto,
                           created_at = Some (clock d (Suc (tick w))),
                           updated_at = Some (clock d (Suc (tick w)))\<rparr>)
          | GetFarms userid \<Rightarrow>
              resp = envelope ''Farms retrieved.'' ''success'' 200
                       (JArr (map farm_json (filter (\<lambda>f. farmerId f = userid) (farms w))))
          | GetById userid farmid \<Rightarrow>
              (\<exists>f. find (owned userid farmid) (farms w) = Some f
                 \<and> resp = envelope ''Farm retrieved successfully'' ''success'' 200 (farm_json f))
          | UpdateFarm userid farmid dto \<Rightarrow>
              (\<exists>f. find (owned userid farmid) (farms w) = Some f
                 \<and> resp = envelope ''Farm updated successfully'' ''success'' 200
                   (farm_json (f\<lparr>name := uf_name dto,
                      location := (case uf_location dto of None \<Rightarrow> location f | Some l \<Rightarrow> l),
                      farm_size := uf_size dto,
                      size_unit := uf_size_unit dto,
                      status := uf_status dto,
                      soil := (case uf_soil dto of None \<Rightarrow> soil f | Some s \<Rightarrow> s),
                      updated_at := Some (clock d (Suc (tick w)))\<rparr>)))
          | DeleteFarm userid farmid \<Rightarrow>
              resp = envelope ''Farm deleted successfully'' ''success'' 200 JNull)
       \<and> (\<forall>h v. (\<forall>u \<in> set (users w). \<forall>p. v (h u) p = argon_verify d (passwordhash u) p) \<longrightarrow>
             fst (perform (d\<lparr>argon_verify := v\<rparr>) r
                    (w\<lparr>users := map (\<lambda>u. u\<lparr>passwordhash := h u\<rparr>) (users w)\<rparr>)) = Inr resp)"
proof -
  have shape: "''passwordhash'' \<notin> set (json_keys resp)
       \<and> (case r of
            Register dto \<Rightarrow>
              resp = envelope ''User registered.'' ''Success'' 201
                       (JObj [(''email'', JStr (reg_email dto)),
                              (''username'', JStr (reg_username dto))])
          | Login dto \<Rightarrow>
              resp = envelope ''Please verify your account'' ''success'' 200 JNull
              \<or> (\<exists>u. find (\<lambda>u. email u = login_email dto) (users w) = Some u
                    \<and> resp = JObj [(''access_token'',
                         JStr (jwt_sign d (JObj [(''sub'', JStr (user_id u)),
                                                 (''email'', JStr (email u))])
                                 (config_get d ''JWT_SECRET'') (config_get d ''JWT_EXPIRE'')))])
          | ForgotPassword dto \<Rightarrow>
              resp = envelope ''Reset token has been sent to your email'' ''success'' 200 JNull
          | VerifyToken e t \<Rightarrow> resp = envelope ''Valid Token'' ''success'' 200 JNull
          | ResetPassword dto \<Rightarrow>
              resp = envelope ''Password Reset successfully.'' ''success'' 200 JNull
          | CreateFarm userid dto \<Rightarrow>
              resp = envelope ''Farm created'' ''success'' 201
                       (farm_json \<lparr>farm_id = objectId d (allocated w), farmerId = userid,
                           name = cf_name dto, location = cf_location dto,
                           farm_size = cf_size dto, size_unit = cf_size_unit dto,
                           status = cf_status dto, soil = cf_soilInfo dto,
                           created_at = Some (clock d (Suc (tick w))),
                           updated_at = Some (clock d (Suc (tick w)))\<rparr>)
          | GetFarms userid \<Rightarrow>
              resp = envelope ''Farms retrieved.'' ''success'' 200
                       (JArr (map farm_json (filter (\<lambda>f. farmerId f = userid) (farms w))))
          | GetById userid farmid \<Rightarrow>
              (\<exists>f. find (owned userid farmid) (farms w) = Some f
                 \<and> resp = envelope ''Farm retrieved successfully'' ''success'' 200 (farm_json f))
          | UpdateFarm userid farmid dto \<Rightarrow>
              (\<exists>f. find (owned userid farmid) (farms w) = Some f
                 \<and> resp = envelope ''Farm updated successfully'' ''success'' 200
                   (farm_json (f\<lparr>name := uf_name dto,
                      location := (case uf_location dto of None \<Rightarrow> location f | Some l \<Rightarrow> l),
                      farm_size := uf_size dto,
                      size_unit := uf_size_unit dto,
                      status := uf_status dto,
                      soil := (case uf_soil dto of None \<Rightarrow> soil f | Some s \<Rightarrow> s),
                      updated_at := Some (clock d (Suc (tick w)))\<rparr>)))
          | DeleteFarm userid farmid \<Rightarrow>
              resp = envelope ''Farm deleted successfully'' ''success'' 200 JNull)"
  proof (cases r)
    case (Register dto)
    with ok register_Inr [of d dto w resp] show ?thesis
      by (simp add: envelope_keys)
  next
    case (Login dto)
    with ok login_Inr [of d dto w resp] show ?thesis
      by (auto simp add: envelope_keys)
  next
    case (ForgotPassword dto)
    with ok forgotPassword_Inr [of d dto w resp] show ?thesis
      by (simp add: envelope_keys)
  next
    case (VerifyToken e t)
    with ok verifyToken_Inr [of d e t w resp] show ?thesis
      by (simp add: envelope_keys)
  next
    case (ResetPassword dto)
    with ok resetPassword_Inr [of d dto w resp] show ?thesis
      by (simp add: envelope_keys)
  next
    case (CreateFarm userid dto)
    with ok createFarm_Inr [of d userid dto w resp] show ?thesis
      by (simp add: envelope_keys farm_json_keys)
  next
    case (GetFarms userid)
    with ok getFarms_Inr [of d userid w resp] show ?thesis
      using farms_json_keys by (simp add: envelope_keys del: json_keys.simps)
  next
    case (GetById userid farmid)
    with ok getById_Inr [of d userid farmid w resp] show ?thesis
      by (auto simp add: envelope_keys farm_json_keys)
  next
    case (UpdateFarm userid farmid dto)
    with ok updateFarm_Inr [of d userid farmid dto w resp] show ?thesis
      by (auto simp add: envelope_keys farm_json_keys)
  next
    case (DeleteFarm userid farmid)
    with ok deleteFarm_Inr [of d userid farmid w resp] show ?thesis
      by (simp add: envelope_keys)
  qed
  have blind: "fst (perform (d\<lparr>argon_verify := v\<rparr>) r
                    (w\<lparr>users := map (\<lambda>u. u\<lparr>passwordhash := h u\<rparr>) (users w)\<rparr>)) = Inr resp"
    if "\<forall>u \<in> set (users w). \<forall>p. v (h u) p = argon_verify d (passwordhash u) p" for h v
    using perform_hash_blind [OF that] ok by simp
  from shape blind show ?thesis by blast
qed

theorem responses_never_expose_passwordhash_witness:
  "fst (perform deps0 (Login \<lparr>login_email = ''b@x.com'', login_password = ''pw-b''\<rparr>) world0) =
     Inr (JObj [(''access_token'', JStr ''jwt-u2'')])
   \<and> passwordhash bob = ''#pw-b''
   \<and> ''passwordhash'' \<notin> set (json_keys (JObj [(''access_token'', JStr ''jwt-u2'')]))
   \<and> map passwordhash (map (\<lambda>u. u\<lparr>passwordhash := CHR ''$'' # tl (passwordhash u)\<rparr>)
         (users world0)) = [''$pw-a'', ''$pw-b'']
   \<and> fst (perform (deps0\<lparr>argon_verify := (\<lambda>s p. s = CHR ''$'' # p)\<rparr>)
            (Login \<lparr>login_email = ''b@x.com'', login_password = ''pw-b''\<rparr>)
            (world0\<lparr>users := map (\<lambda>u. u\<lparr>passwordhash := CHR ''$'' # tl (passwordhash u)\<rparr>)
                                (users world0)\<rparr>)) =
       Inr (JObj [(''access_token'', JStr ''jwt-u2'')])"
proof -
  have run: "fst (perform deps0 (Login \<lparr>login_email = ''b@x.com'', login_password = ''pw-b''\<rparr>)
                world0) = Inr (JObj [(''access_token'', JStr ''jwt-u2'')])"
    by (simp add: login_def user_findUnique_def argon_verify_call_def jwt_signAsync_def io_defs
        sample_defs Let_def)
  have same: "\<forall>u \<in> set (users world0). \<forall>p.
                (\<lambda>s p. s = CHR ''$'' # p) ((\<lambda>u. CHR ''$'' # tl (passwordhash u)) u) p =
                argon_verify deps0 (passwordhash u) p"
    by (simp add: sample_defs)
  have hashes: "map passwordhash (map (\<lambda>u. u\<lparr>passwordhash := CHR ''$'' # tl (passwordhash u)\<rparr>)
         (users world0)) = [''$pw-a'', ''$pw-b'']"
    by (simp add: sample_defs)
  have stored: "passwordhash bob = ''#pw-b''" by (simp add: bob_def)
  note t = responses_never_expose_passwordhash [OF run]
  have 1: "''passwordhash'' \<notin> set (json_keys (JObj [(''access_token'', JStr ''jwt-u2'')]))"
    using t by (rule conjunct1)
  have 2: "fst (perform (deps0\<lparr>argon_verify := (\<lambda>s p. s = CHR ''$'' # p)\<rparr>)
            (Login \<lparr>login_email = ''b@x.com'', login_password = ''pw-b''\<rparr>)
            (world0\<lparr>users := map (\<lambda>u. u\<lparr>passwordhash := CHR ''$'' # tl (passwordhash u)\<rparr>)
                                (users world0)\<rparr>)) =
       Inr (JObj [(''access_token'', JStr ''jwt-u2'')])"
    using t [THEN conjunct2, THEN conjunct2, THEN spec,
        of "\<lambda>u. CHR ''$'' # tl (passwordhash u)", THEN spec, of "\<lambda>s p. s = CHR ''$'' # p"] same
    by blast
  from run stored 1 hashes 2 show ?thesis by blast
qed

end
